theory Spec2Isabelle
  imports Main
begin

section \<open>The Sphinx search index of the artellapipe launcher documentation\<close>

text \<open>
  The repository's only source file, \<^verbatim>\<open>searchindex.js\<close>, is one statement,
  \<^verbatim>\<open>Search.setIndex({docnames:[...], envversion:{...}, filenames:[...], objects:{...},
  objnames:{...}, objtypes:{...}, terms:{...}, titles:[...], titleterms:{...}})\<close>.
  Its argument is modelled field by field, in the order of the file:
  \<^item> a JavaScript array of strings is a \<open>string list\<close>;
  \<^item> a JavaScript object is an association list of its properties, in the order in which the
    file writes them, with the property names as strings (the file quotes some names and leaves
    the others bare; both are strings to JavaScript);
  \<^item> a posting in \<^verbatim>\<open>terms\<close> and \<^verbatim>\<open>titleterms\<close> is either one number
    (\<^verbatim>\<open>index:20\<close>) or an array of numbers (\<^verbatim>\<open>fals:[1,3]\<close>);
  \<^item> an entry of \<^verbatim>\<open>objects\<close> is the four-element array
    \<^verbatim>\<open>[document, type code, priority, anchor]\<close>, for instance \<^verbatim>\<open>[19,3,1,""]\<close>;
  \<^item> every number in the file is an unsigned decimal literal, so numbers are \<open>nat\<close>.
\<close>

subsection \<open>Data model\<close>

datatype posting = Single nat | Many "nat list"

type_synonym objentry = "nat \<times> nat \<times> nat \<times> string"

record search_index =
  docnames :: "string list"
  envversion :: "(string \<times> nat) list"
  filenames :: "string list"
  objects :: "(string \<times> (string \<times> objentry) list) list"
  objnames :: "(string \<times> string list) list"
  objtypes :: "(string \<times> string) list"
  terms :: "(string \<times> posting) list"
  titles :: "string list"
  titleterms :: "(string \<times> posting) list"

subsection \<open>The index of the file\<close>

definition index_docnames :: "string list" where
  "index_docnames =
    [''artellapipe'', ''artellapipe.launcher'', ''artellapipe.launcher.core'',
     ''artellapipe.launcher.core.config'', ''artellapipe.launcher.core.dccselector'',
     ''artellapipe.launcher.core.defines'', ''artellapipe.launcher.core.launcher'',
     ''artellapipe.launcher.core.updater'', ''artellapipe.launcher.dccs'',
     ''artellapipe.launcher.dccs.houdinidcc'', ''artellapipe.launcher.dccs.mayadcc'',
     ''artellapipe.launcher.dccs.nukedcc'', ''artellapipe.launcher.dccs.photoshopdcc'',
     ''artellapipe.launcher.dccs.substancedesignerdcc'',
     ''artellapipe.launcher.dccs.substancepainterdcc'',
     ''artellapipe.launcher.dccs.zbrushdcc'', ''artellapipe.launcher.utils'',
     ''artellapipe.launcher.utils.download'', ''artellapipe.launcher.widgets'',
     ''artellapipe.launcher.widgets.console'', ''index'', ''modules'']"

definition index_envversion :: "(string \<times> nat) list" where
  "index_envversion =
    [(''sphinx.domains.c'', 1), (''sphinx.domains.changeset'', 1),
     (''sphinx.domains.citation'', 1), (''sphinx.domains.cpp'', 1),
     (''sphinx.domains.javascript'', 1), (''sphinx.domains.math'', 2),
     (''sphinx.domains.python'', 1), (''sphinx.domains.rst'', 1), (''sphinx.domains.std'', 1),
     (''sphinx.ext.todo'', 2), (''sphinx'', 56)]"

definition index_filenames :: "string list" where
  "index_filenames =
    [''artellapipe.rst'', ''artellapipe.launcher.rst'', ''artellapipe.launcher.core.rst'',
     ''artellapipe.launcher.core.config.rst'', ''artellapipe.launcher.core.dccselector.rst'',
     ''artellapipe.launcher.core.defines.rst'', ''artellapipe.launcher.core.launcher.rst'',
     ''artellapipe.launcher.core.updater.rst'', ''artellapipe.launcher.dccs.rst'',
     ''artellapipe.launcher.dccs.houdinidcc.rst'', ''artellapipe.launcher.dccs.mayadcc.rst'',
     ''artellapipe.launcher.dccs.nukedcc.rst'', ''artellapipe.launcher.dccs.photoshopdcc.rst'',
     ''artellapipe.launcher.dccs.substancedesignerdcc.rst'',
     ''artellapipe.launcher.dccs.substancepainterdcc.rst'',
     ''artellapipe.launcher.dccs.zbrushdcc.rst'', ''artellapipe.launcher.utils.rst'',
     ''artellapipe.launcher.utils.download.rst'', ''artellapipe.launcher.widgets.rst'',
     ''artellapipe.launcher.widgets.console.rst'', ''index.rst'', ''modules.rst'']"

definition index_objects :: "(string \<times> (string \<times> objentry) list) list" where
  "index_objects =
    [('''',
       [(''artellapipe'', (0, 0, 0, ''-''))]),
     (''artellapipe.launcher'',
       [(''core'', (2, 0, 0, ''-'')), (''create_logger_directory'', (1, 4, 1, '''')),
        (''dccs'', (8, 0, 0, ''-'')), (''get_dccs_path'', (1, 4, 1, '''')),
        (''get_launcher_config_path'', (1, 4, 1, '''')),
        (''get_logging_config'', (1, 4, 1, '''')),
        (''get_updater_config_path'', (1, 4, 1, '''')), (''init'', (1, 4, 1, '''')),
        (''update_paths'', (1, 4, 1, '''')), (''utils'', (16, 0, 0, ''-'')),
        (''widgets'', (18, 0, 0, ''-''))]),
     (''artellapipe.launcher.core'',
       [(''config'', (3, 0, 0, ''-'')), (''defines'', (5, 0, 0, ''-''))]),
     (''artellapipe.launcher.core.config'',
       [(''ArtellaLauncherConfig'', (3, 1, 1, '''')), (''create_config'', (3, 4, 1, '''')),
        (''get_system_config_directory'', (3, 4, 1, ''''))]),
     (''artellapipe.launcher.core.config.ArtellaLauncherConfig'',
       [(''ENVIRONMENTS'', (3, 2, 1, '''')), (''EXECUTABLES'', (3, 2, 1, '''')),
        (''edit'', (3, 3, 1, '''')), (''staticMetaObject'', (3, 2, 1, ''''))]),
     (''artellapipe.launcher.dccs'',
       [(''nukedcc'', (11, 0, 0, ''-'')), (''photoshopdcc'', (12, 0, 0, ''-'')),
        (''substancedesignerdcc'', (13, 0, 0, ''-'')),
        (''substancepainterdcc'', (14, 0, 0, ''-'')), (''zbrushdcc'', (15, 0, 0, ''-''))]),
     (''artellapipe.launcher.dccs.nukedcc'',
       [(''get_executables_from_installation_path'', (11, 4, 1, '''')),
        (''get_installation_paths'', (11, 4, 1, ''''))]),
     (''artellapipe.launcher.dccs.photoshopdcc'',
       [(''get_executables_from_installation_path'', (12, 4, 1, '''')),
        (''get_installation_paths'', (12, 4, 1, ''''))]),
     (''artellapipe.launcher.dccs.substancedesignerdcc'',
       [(''get_executables_from_installation_path'', (13, 4, 1, '''')),
        (''get_installation_paths'', (13, 4, 1, ''''))]),
     (''artellapipe.launcher.dccs.substancepainterdcc'',
       [(''get_executables_from_installation_path'', (14, 4, 1, '''')),
        (''get_installation_paths'', (14, 4, 1, ''''))]),
     (''artellapipe.launcher.dccs.zbrushdcc'',
       [(''get_executables_from_installation_path'', (15, 4, 1, '''')),
        (''get_installation_paths'', (15, 4, 1, ''''))]),
     (''artellapipe.launcher.widgets'',
       [(''console'', (19, 0, 0, ''-''))]),
     (''artellapipe.launcher.widgets.console'',
       [(''ArtellaLauncherConsole'', (19, 1, 1, ''''))]),
     (''artellapipe.launcher.widgets.console.ArtellaLauncherConsole'',
       [(''output_buffer_to_file'', (19, 3, 1, '''')), (''set_debug_level'', (19, 3, 1, '''')),
        (''set_info_level'', (19, 3, 1, '''')), (''staticMetaObject'', (19, 2, 1, '''')),
        (''write'', (19, 3, 1, '''')), (''write_error'', (19, 3, 1, '''')),
        (''write_ok'', (19, 3, 1, ''''))]),
     (''artellapipe'',
       [(''launcher'', (1, 0, 0, ''-''))])]"

definition index_objnames :: "(string \<times> string list) list" where
  "index_objnames =
    [(''0'', [''py'', ''module'', ''Python module'']),
     (''1'', [''py'', ''class'', ''Python class'']),
     (''2'', [''py'', ''attribute'', ''Python attribute'']),
     (''3'', [''py'', ''method'', ''Python method'']),
     (''4'', [''py'', ''function'', ''Python function''])]"

definition index_objtypes :: "(string \<times> string) list" where
  "index_objtypes =
    [(''0'', ''py:module''), (''1'', ''py:class''), (''2'', ''py:attribute''),
     (''3'', ''py:method''), (''4'', ''py:function'')]"

definition index_terms :: "(string \<times> posting) list" where
  "index_terms =
    [(''class'', Many [3, 19]), (''default'', Many [1, 3]),
     (''function'', Many [11, 12, 13, 14, 15]), (''new'', Single 19),
     (''return'', Many [1, 3, 11, 12, 13, 14, 15]), (''add'', Many [1, 19]),
     (''all'', Single 5), (''applic'', Single 3), (''artella'', Many [1, 3, 19]),
     (''artellalauncherconfig'', Single 3), (''artellalauncherconsol'', Single 19),
     (''as_path'', Single 3), (''base'', Many [3, 19]), (''bool'', Single 1),
     (''buffer'', Single 19), (''comput'', Single 12), (''config'', Many [0, 1, 2]),
     (''config_fil'', Single 3), (''configur'', Many [1, 3]), (''consol'', Many [0, 1, 3, 18]),
     (''constant'', Single 5), (''construct'', Single 3),
     (''contain'', Many [3, 5, 11, 12, 13, 14, 15, 19]), (''content'', Many [20, 21]),
     (''core'', Many [0, 1]), (''creat'', Many [1, 3]), (''create_config'', Single 3),
     (''create_logger_directori'', Single 1), (''dcc'', Many [0, 1]),
     (''dcc_install_path'', Single 3), (''dccselector'', Many [0, 1, 2]),
     (''debug'', Single 19), (''defin'', Many [0, 1, 2]), (''definit'', Single 5),
     (''design'', Single 13), (''designer_vers'', Single 13), (''directori'', Many [1, 3]),
     (''do_reload'', Single 1), (''download'', Many [0, 1, 16]), (''edit'', Single 3),
     (''element'', Single 3), (''environ'', Single 3), (''error'', Single 19),
     (''execut'', Many [3, 11, 12, 13, 14, 15]), (''fals'', Many [1, 3]),
     (''file'', Many [1, 3, 19]), (''filenam'', Single 3), (''filepath'', Single 19),
     (''folder'', Many [11, 12, 13, 14, 15]), (''from'', Many [3, 11, 12, 13, 14, 15]),
     (''get_dccs_path'', Single 1),
     (''get_executables_from_installation_path'', Many [11, 12, 13, 14, 15]),
     (''get_installation_path'', Many [11, 12, 13, 14, 15]),
     (''get_launcher_config_path'', Single 1), (''get_logging_config'', Single 1),
     (''get_system_config_directori'', Single 3), (''get_updater_config_path'', Single 1),
     (''green'', Single 19), (''handl'', Many [11, 12, 13, 14, 15]),
     (''houdinidcc'', Many [0, 1, 8]), (''implement'', Many [3, 19]), (''index'', Single 20),
     (''info'', Single 19), (''init'', Single 1), (''initi'', Many [0, 1]),
     (''instal'', Many [11, 12, 13, 14, 15]),
     (''installation_path'', Many [11, 12, 13, 14, 15]), (''its'', Many [11, 12, 13, 14, 15]),
     (''launcher'', Many [0, 21]), (''launcher_nam'', Single 3), (''level'', Single 19),
     (''librari'', Single 5), (''line'', Single 19), (''list'', Many [11, 12, 13, 14, 15]),
     (''locat'', Many [1, 12]), (''log'', Many [1, 19]), (''logger'', Many [1, 19]),
     (''maya'', Single 12), (''mayadcc'', Many [0, 1, 8]), (''messag'', Single 19),
     (''modul'', Many [20, 21]), (''msg'', Single 19), (''necessari'', Many [1, 3]),
     (''none'', Many [3, 19]), (''nuke'', Single 11), (''nuke_vers'', Single 11),
     (''nukedcc'', Many [0, 1, 8]), (''object'', Many [3, 19]), (''output'', Single 19),
     (''output_buffer_to_fil'', Single 19), (''packag'', Many [20, 21]), (''page'', Single 20),
     (''painter'', Single 14), (''painter_vers'', Single 14),
     (''param'', Many [1, 11, 12, 13, 14, 15, 19]), (''parent'', Single 19),
     (''path'', Many [1, 11, 12, 13, 14, 15]), (''photoshop'', Single 12),
     (''photoshop_vers'', Single 12), (''photoshopdcc'', Many [0, 1, 8]),
     (''platform'', Single 3), (''pyside2'', Many [3, 19]), (''qmetaobject'', Many [3, 19]),
     (''qset'', Single 3), (''qtcore'', Many [3, 19]), (''qtextedit'', Single 19),
     (''qtwidget'', Single 19), (''reload'', Single 1), (''search'', Single 20),
     (''set'', Single 19), (''set_debug_level'', Single 19), (''set_info_level'', Single 19),
     (''specif'', Single 3), (''staticmetaobject'', Many [3, 19]), (''store'', Single 19),
     (''str'', Many [1, 11, 12, 13, 14, 15, 19]), (''submodul'', Many [0, 1]),
     (''subpackag'', Single 21), (''substanc'', Many [13, 14]),
     (''substancedesignerdcc'', Many [0, 1, 8]), (''substancepainterdcc'', Many [0, 1, 8]),
     (''sys'', Single 1), (''updat'', Many [0, 1, 2]), (''update_path'', Single 1),
     (''used'', Single 5), (''user'', Single 12), (''util'', Many [0, 1]),
     (''where'', Many [1, 12]), (''whether'', Single 1), (''widget'', Many [0, 1]),
     (''window'', Single 3), (''write'', Single 19), (''write_error'', Single 19),
     (''write_ok'', Single 19), (''zbrush'', Single 15), (''zbrush_vers'', Single 15),
     (''zbrushdcc'', Many [0, 1, 8])]"

definition index_titles :: "string list" where
  "index_titles =
    [''artellapipe package'', ''artellapipe.launcher package'',
     ''artellapipe.launcher.core package'', ''artellapipe.launcher.core.config module'',
     ''artellapipe.launcher.core.dccselector module'',
     ''artellapipe.launcher.core.defines module'',
     ''artellapipe.launcher.core.launcher module'',
     ''artellapipe.launcher.core.updater module'', ''artellapipe.launcher.dccs package'',
     ''artellapipe.launcher.dccs.houdinidcc module'',
     ''artellapipe.launcher.dccs.mayadcc module'',
     ''artellapipe.launcher.dccs.nukedcc module'',
     ''artellapipe.launcher.dccs.photoshopdcc module'',
     ''artellapipe.launcher.dccs.substancedesignerdcc module'',
     ''artellapipe.launcher.dccs.substancepainterdcc module'',
     ''artellapipe.launcher.dccs.zbrushdcc module'', ''artellapipe.launcher.utils package'',
     ''artellapipe.launcher.utils.download module'', ''artellapipe.launcher.widgets package'',
     ''artellapipe.launcher.widgets.console module'',
     ''Welcome to artellapipe-core documentation!'', ''artellapipe'']"

definition index_titleterms :: "(string \<times> posting) list" where
  "index_titleterms =
    [(''artellapip'', Many [0, 1, 2, 3, 4, 5, 6, 7, 8, 9, 10, 11, 12, 13, 14, 15, 16, 17, 18, 19, 20, 21]),
     (''config'', Single 3), (''consol'', Single 19), (''content'', Many [0, 1, 2, 8, 16, 18]),
     (''core'', Many [2, 3, 4, 5, 6, 7, 20]), (''dcc'', Many [8, 9, 10, 11, 12, 13, 14, 15]),
     (''dccselector'', Single 4), (''defin'', Single 5), (''document'', Single 20),
     (''download'', Single 17), (''houdinidcc'', Single 9), (''indic'', Single 20),
     (''launcher'', Many [1, 2, 3, 4, 5, 6, 7, 8, 9, 10, 11, 12, 13, 14, 15, 16, 17, 18, 19]),
     (''mayadcc'', Single 10),
     (''modul'', Many [0, 1, 2, 3, 4, 5, 6, 7, 8, 9, 10, 11, 12, 13, 14, 15, 16, 17, 18, 19]),
     (''nukedcc'', Single 11), (''packag'', Many [0, 1, 2, 8, 16, 18]),
     (''photoshopdcc'', Single 12), (''submodul'', Many [2, 8, 16, 18]),
     (''subpackag'', Many [0, 1]), (''substancedesignerdcc'', Single 13),
     (''substancepainterdcc'', Single 14), (''tabl'', Single 20), (''updat'', Single 7),
     (''util'', Many [16, 17]), (''welcom'', Single 20), (''widget'', Many [18, 19]),
     (''zbrushdcc'', Single 15)]"

definition searchindex :: search_index where
  "searchindex =
    \<lparr>docnames = index_docnames, envversion = index_envversion, filenames = index_filenames,
     objects = index_objects, objnames = index_objnames, objtypes = index_objtypes,
     terms = index_terms, titles = index_titles, titleterms = index_titleterms\<rparr>"

subsection \<open>Reading the index\<close>

text \<open>
  The document IDs of a posting: a bare number stands for the one-element list.
\<close>

fun posting_ids :: "posting \<Rightarrow> nat list" where
  "posting_ids (Single d) = [d]"
| "posting_ids (Many ds) = ds"

text \<open>
  \<^verbatim>\<open>docnames[d]\<close>: reading a JavaScript array outside its bounds gives
  \<^verbatim>\<open>undefined\<close>, which is \<open>None\<close> here.
\<close>

definition docname_at :: "search_index \<Rightarrow> nat \<Rightarrow> string option" where
  "docname_at idx d = (if d < length (docnames idx) then Some (docnames idx ! d) else None)"

text \<open>
  \<^verbatim>\<open>objtypes[c]\<close> and \<^verbatim>\<open>objnames[c]\<close> with a number \<open>c\<close>: JavaScript turns
  the number into its decimal string and reads the property of that name.
\<close>

fun dec_string :: "nat \<Rightarrow> string" where
  "dec_string n =
     (if n < 10 then [''0123456789'' ! n]
      else dec_string (n div 10) @ [''0123456789'' ! (n mod 10)])"

declare dec_string.simps [simp del]

definition objtype_of :: "search_index \<Rightarrow> nat \<Rightarrow> string option" where
  "objtype_of idx c = map_of (objtypes idx) (dec_string c)"

definition objname_of :: "search_index \<Rightarrow> nat \<Rightarrow> string list option" where
  "objname_of idx c = map_of (objnames idx) (dec_string c)"

definition obj_doc :: "objentry \<Rightarrow> nat" where
  "obj_doc e = fst e"

definition obj_type :: "objentry \<Rightarrow> nat" where
  "obj_type e = fst (snd e)"

text \<open>
  \<^verbatim>\<open>objects[prefix][name]\<close>: a missing property is \<^verbatim>\<open>undefined\<close>, here \<open>None\<close>.
\<close>

definition lookup_object :: "search_index \<Rightarrow> string \<Rightarrow> string \<Rightarrow> objentry option" where
  "lookup_object idx prefix name =
     (case map_of (objects idx) prefix of
        None \<Rightarrow> None
      | Some entries \<Rightarrow> map_of entries name)"

text \<open>All entries of \<^verbatim>\<open>objects\<close>, each with its prefix and name.\<close>

definition all_objects :: "search_index \<Rightarrow> (string \<times> string \<times> objentry) list" where
  "all_objects idx =
     concat (map (\<lambda>(prefix, entries). map (\<lambda>(name, e). (prefix, name, e)) entries) (objects idx))"

text \<open>
  The index documents \<open>name\<close> under \<open>prefix\<close> with the type \<open>ty\<close> (such as
  \<^verbatim>\<open>py:function\<close>), and if so in which document.
\<close>

definition documented_as :: "search_index \<Rightarrow> string \<Rightarrow> string \<Rightarrow> string \<Rightarrow> nat option" where
  "documented_as idx prefix name ty =
     (case lookup_object idx prefix name of
        None \<Rightarrow> None
      | Some e \<Rightarrow> if objtype_of idx (obj_type e) = Some ty then Some (obj_doc e) else None)"

text \<open>
  \<^verbatim>\<open>terms[t]\<close> for the names that the file writes into \<^verbatim>\<open>terms\<close>; any other
  name is \<open>None\<close>. Names that a JavaScript object inherits are not part of the file and are
  not modelled.
\<close>

definition lookup_term :: "search_index \<Rightarrow> string \<Rightarrow> posting option" where
  "lookup_term idx t = map_of (terms idx) t"

fun strictly_increasing :: "nat list \<Rightarrow> bool" where
  "strictly_increasing [] = True"
| "strictly_increasing [x] = True"
| "strictly_increasing (x # y # ys) = (x < y \<and> strictly_increasing (y # ys))"

fun posting_is_set :: "posting \<Rightarrow> bool" where
  "posting_is_set (Single d) = True"
| "posting_is_set (Many ds) = strictly_increasing ds"

text \<open>The per-DCC modules that the index records as documents.\<close>

definition dcc_modules :: "string list" where
  "dcc_modules =
     [''houdinidcc'', ''mayadcc'', ''nukedcc'', ''photoshopdcc'', ''substancedesignerdcc'',
      ''substancepainterdcc'', ''zbrushdcc'']"

definition dcc_module_path :: "string \<Rightarrow> string" where
  "dcc_module_path m = ''artellapipe.launcher.dccs.'' @ m"


text \<open>
  Both path finders of a per-DCC module: the index documents them as functions under the
  module's path.
\<close>

definition documents_path_finders :: "search_index \<Rightarrow> string \<Rightarrow> bool" where
  "documents_path_finders idx m =
     (documented_as idx (dcc_module_path m) ''get_installation_paths'' ''py:function'' \<noteq> None \<and>
      documented_as idx (dcc_module_path m) ''get_executables_from_installation_path''
        ''py:function'' \<noteq> None)"

text \<open>
  The type string that an entry of \<^verbatim>\<open>objnames\<close> spells: domain, a colon, role.
  An entry with fewer than two components spells none.
\<close>

fun objname_type :: "string list \<Rightarrow> string option" where
  "objname_type (domain # role # rest) = Some (domain @ '':'' @ role)"
| "objname_type ns = None"

subsection \<open>The text of the file\<close>



subsection \<open>Reading a literal\<close>



































subsection \<open>From the value to the index\<close>












subsection \<open>The fields of the index\<close>

lemma searchindex_docnames: "docnames searchindex = index_docnames"
  by (simp add: searchindex_def)

lemma searchindex_terms: "terms searchindex = index_terms"
  by (simp add: searchindex_def)

lemma searchindex_titleterms: "titleterms searchindex = index_titleterms"
  by (simp add: searchindex_def)

lemma length_index_docnames: "length index_docnames = 22"
  by (simp add: index_docnames_def)

lemma searchindex_filenames: "filenames searchindex = index_filenames"
  by (simp add: searchindex_def)

lemma searchindex_objects: "objects searchindex = index_objects"
  by (simp add: searchindex_def)

lemma searchindex_objtypes: "objtypes searchindex = index_objtypes"
  by (simp add: searchindex_def)

lemma searchindex_objnames: "objnames searchindex = index_objnames"
  by (simp add: searchindex_def)

lemma docname_at_searchindex:
  "docname_at searchindex d = (if d < 22 then Some (index_docnames ! d) else None)"
  by (simp add: docname_at_def searchindex_docnames length_index_docnames)

lemma dec_string_digit: "n < 10 \<Longrightarrow> dec_string n = [''0123456789'' ! n]"
  by (simp add: dec_string.simps)

lemma dec_string_upto_4:
  assumes "c \<le> 4"
  shows "dec_string c \<in> {''0'', ''1'', ''2'', ''3'', ''4''}"
proof -
  from assms have "c = 0 \<or> c = 1 \<or> c = 2 \<or> c = 3 \<or> c = 4"
    by arith
  then show ?thesis
    by (elim disjE) (simp_all add: dec_string_digit)
qed

text \<open>
  No object of the file writes a property name twice, so the first match that \<open>map_of\<close>
  returns is the value JavaScript reads.
\<close>

lemma distinct_keys_terms: "distinct (map fst index_terms)"
  by (simp add: index_terms_def)

lemma distinct_keys_titleterms: "distinct (map fst index_titleterms)"
  by (simp add: index_titleterms_def)

lemma distinct_keys_objects:
  "distinct (map fst index_objects)"
  "list_all (\<lambda>(prefix, entries). distinct (map fst entries)) index_objects"
  by (simp_all add: index_objects_def)

lemma distinct_keys_objtypes: "distinct (map fst index_objtypes)"
  by (simp add: index_objtypes_def)

lemma distinct_keys_objnames: "distinct (map fst index_objnames)"
  by (simp add: index_objnames_def)

subsection \<open>Postings point into \<open>docnames\<close>\<close>

lemma terms_bounded:
  "list_all (\<lambda>(t, p). list_all (\<lambda>d. d < 22) (posting_ids p)) index_terms"
  by (simp add: index_terms_def)

lemma titleterms_bounded:
  "list_all (\<lambda>(t, p). list_all (\<lambda>d. d < 22) (posting_ids p)) index_titleterms"
  by (simp add: index_titleterms_def)

lemma fals_in_terms: "(''fals'', Many [1, 3]) \<in> set index_terms"
  by (simp add: index_terms_def)

text \<open>
  C1. Every document ID posted for a term of \<^verbatim>\<open>terms\<close> or a title term of
  \<^verbatim>\<open>titleterms\<close>, whether the posting is one number or a list, is below the length of
  \<^verbatim>\<open>docnames\<close>, so reading the document name of a posted ID yields a name and never
  leaves the array.
\<close>

theorem posted_ids_within_docnames:
  "\<forall>(t, p) \<in> set (terms searchindex) \<union> set (titleterms searchindex).
     \<forall>d \<in> set (posting_ids p).
       d < length (docnames searchindex) \<and>
       docname_at searchindex d = Some (docnames searchindex ! d)"
proof -
  have "\<forall>(t, p) \<in> set index_terms \<union> set index_titleterms.
          \<forall>d \<in> set (posting_ids p). d < 22"
    using terms_bounded titleterms_bounded unfolding list_all_iff by blast
  then show ?thesis
    by (simp add: searchindex_terms searchindex_titleterms searchindex_docnames
        length_index_docnames docname_at_def)
qed

theorem posted_ids_within_docnames_witness:
  "(''fals'', Many [1, 3]) \<in> set (terms searchindex) \<union> set (titleterms searchindex) \<and>
   3 \<in> set (posting_ids (Many [1, 3])) \<and>
   3 < length (docnames searchindex) \<and>
   docname_at searchindex 3 = Some ''artellapipe.launcher.core.config''"
proof -
  have m: "(''fals'', Many [1, 3]) \<in> set (terms searchindex) \<union> set (titleterms searchindex)"
    using fals_in_terms by (simp add: searchindex_terms)
  have d: "(3::nat) \<in> set (posting_ids (Many [1, 3]))"
    by simp
  from posted_ids_within_docnames m
  have "\<forall>d \<in> set (posting_ids (Many [1, 3])).
          d < length (docnames searchindex) \<and>
          docname_at searchindex d = Some (docnames searchindex ! d)"
    by blast
  with d have "3 < length (docnames searchindex) \<and>
      docname_at searchindex 3 = Some (docnames searchindex ! 3)"
    by blast
  moreover have "docnames searchindex ! 3 = ''artellapipe.launcher.core.config''"
    by (simp add: searchindex_docnames index_docnames_def)
  ultimately show ?thesis
    using m d by simp
qed

subsection \<open>Object entries resolve\<close>

lemma objects_bounded:
  "list_all (\<lambda>(prefix, entries). list_all (\<lambda>(name, e). obj_type e \<le> 4 \<and> obj_doc e < 22) entries)
     index_objects"
  by (simp add: index_objects_def obj_type_def obj_doc_def)

lemma all_objects_bounded:
  assumes "(prefix, name, e) \<in> set (all_objects searchindex)"
  shows "obj_type e \<le> 4 \<and> obj_doc e < 22"
proof -
  from assms obtain entries
    where "(prefix, entries) \<in> set index_objects" and "(name, e) \<in> set entries"
    by (auto simp: all_objects_def searchindex_objects)
  with objects_bounded show ?thesis
    unfolding list_all_iff by blast
qed

lemma objtypes_keys: "fst ` set index_objtypes = {''0'', ''1'', ''2'', ''3'', ''4''}"
  by (simp add: index_objtypes_def)

lemma objnames_keys: "fst ` set index_objnames = {''0'', ''1'', ''2'', ''3'', ''4''}"
  by (simp add: index_objnames_def)

lemma write_error_in_all_objects:
  "(''artellapipe.launcher.widgets.console.ArtellaLauncherConsole'', ''write_error'',
    (19, 3, 1, '''')) \<in> set (all_objects searchindex)"
  by (simp add: all_objects_def searchindex_objects index_objects_def)

text \<open>
  C2. For every entry of \<^verbatim>\<open>objects\<close>, the type code is one of 0 to 4 and, read as a
  property name, is a key of \<^verbatim>\<open>objtypes\<close> and of \<^verbatim>\<open>objnames\<close>, and the
  document ID is below the length of \<^verbatim>\<open>docnames\<close>: the entry resolves to a type and to
  a document name.
\<close>

theorem objects_resolve:
  "\<forall>(prefix, name, e) \<in> set (all_objects searchindex).
     obj_type e \<le> 4 \<and>
     dec_string (obj_type e) \<in> fst ` set (objtypes searchindex) \<and>
     dec_string (obj_type e) \<in> fst ` set (objnames searchindex) \<and>
     objtype_of searchindex (obj_type e) \<noteq> None \<and>
     objname_of searchindex (obj_type e) \<noteq> None \<and>
     obj_doc e < length (docnames searchindex) \<and>
     docname_at searchindex (obj_doc e) = Some (docnames searchindex ! obj_doc e)"
proof -
  have "obj_type e \<le> 4 \<and>
     dec_string (obj_type e) \<in> fst ` set (objtypes searchindex) \<and>
     dec_string (obj_type e) \<in> fst ` set (objnames searchindex) \<and>
     objtype_of searchindex (obj_type e) \<noteq> None \<and>
     objname_of searchindex (obj_type e) \<noteq> None \<and>
     obj_doc e < length (docnames searchindex) \<and>
     docname_at searchindex (obj_doc e) = Some (docnames searchindex ! obj_doc e)"
    if "(prefix, name, e) \<in> set (all_objects searchindex)" for prefix name e
  proof -
    from that have b: "obj_type e \<le> 4" "obj_doc e < 22"
      using all_objects_bounded by blast+
    from b(1) have k: "dec_string (obj_type e) \<in> {''0'', ''1'', ''2'', ''3'', ''4''}"
      by (rule dec_string_upto_4)
    have t: "dec_string (obj_type e) \<in> fst ` set (objtypes searchindex)"
      using k by (simp only: searchindex_objtypes objtypes_keys)
    have n: "dec_string (obj_type e) \<in> fst ` set (objnames searchindex)"
      using k by (simp only: searchindex_objnames objnames_keys)
    have "objtype_of searchindex (obj_type e) \<noteq> None"
      using t by (simp add: objtype_of_def map_of_eq_None_iff)
    moreover have "objname_of searchindex (obj_type e) \<noteq> None"
      using n by (simp add: objname_of_def map_of_eq_None_iff)
    moreover have "obj_doc e < length (docnames searchindex)"
      using b(2) by (simp add: searchindex_docnames length_index_docnames)
    ultimately show ?thesis
      using b(1) t n by (simp add: docname_at_def)
  qed
  then show ?thesis
    by blast
qed

theorem objects_resolve_witness:
  "(''artellapipe.launcher.widgets.console.ArtellaLauncherConsole'', ''write_error'',
    (19, 3, 1, '''')) \<in> set (all_objects searchindex) \<and>
   objtype_of searchindex 3 = Some ''py:method'' \<and>
   objname_of searchindex 3 = Some [''py'', ''method'', ''Python method''] \<and>
   docname_at searchindex 19 = Some ''artellapipe.launcher.widgets.console''"
proof -
  let ?e = "(19, 3, 1, '''') :: objentry"
  from objects_resolve write_error_in_all_objects
  have "objtype_of searchindex (obj_type ?e) \<noteq> None \<and>
        objname_of searchindex (obj_type ?e) \<noteq> None \<and>
        docname_at searchindex (obj_doc ?e) = Some (docnames searchindex ! obj_doc ?e)"
    by fast
  moreover have "obj_type ?e = 3" "obj_doc ?e = 19"
    by (simp_all add: obj_type_def obj_doc_def)
  moreover have "objtype_of searchindex 3 = Some ''py:method''"
    by (simp add: objtype_of_def searchindex_objtypes index_objtypes_def dec_string_digit)
  moreover have "objname_of searchindex 3 = Some [''py'', ''method'', ''Python method'']"
    by (simp add: objname_of_def searchindex_objnames index_objnames_def dec_string_digit)
  moreover have "docnames searchindex ! 19 = ''artellapipe.launcher.widgets.console''"
    by (simp add: searchindex_docnames index_docnames_def)
  ultimately show ?thesis
    using write_error_in_all_objects by simp
qed

subsection \<open>The per-DCC modules\<close>

text \<open>
  The per-DCC modules are the documents of the index below the package
  \<^verbatim>\<open>artellapipe.launcher.dccs\<close>.
\<close>

lemma dcc_modules_documents:
  "filter (\<lambda>d. take 26 d = ''artellapipe.launcher.dccs.'') (docnames searchindex) =
     map dcc_module_path dcc_modules"
  by (simp add: searchindex_docnames index_docnames_def dcc_modules_def dcc_module_path_def)

lemma dcc_objects_present:
  "map (\<lambda>m. map_option (map fst) (map_of index_objects (dcc_module_path m))) dcc_modules =
     [None, None,
      Some [''get_executables_from_installation_path'', ''get_installation_paths''],
      Some [''get_executables_from_installation_path'', ''get_installation_paths''],
      Some [''get_executables_from_installation_path'', ''get_installation_paths''],
      Some [''get_executables_from_installation_path'', ''get_installation_paths''],
      Some [''get_executables_from_installation_path'', ''get_installation_paths'']]"
  by (simp add: dcc_modules_def dcc_module_path_def index_objects_def)

lemma dcc_path_finders:
  "map (documents_path_finders searchindex) dcc_modules =
     [False, False, True, True, True, True, True]"
  by (simp add: dcc_modules_def dcc_module_path_def documents_path_finders_def
      documented_as_def lookup_object_def objtype_of_def obj_type_def obj_doc_def
      searchindex_objects searchindex_objtypes index_objects_def index_objtypes_def
      dec_string_digit)

text \<open>
  C3 as stated fails for Maya: \<^verbatim>\<open>artellapipe.launcher.dccs.mayadcc\<close> is a document of
  the index, yet \<^verbatim>\<open>objects\<close> has no property of that name, so neither path finder is
  documented under it.
\<close>

theorem mayadcc_path_finders_counterexample:
  "''mayadcc'' \<in> set dcc_modules \<and>
   dcc_module_path ''mayadcc'' \<in> set (docnames searchindex) \<and>
   map_of (objects searchindex) (dcc_module_path ''mayadcc'') = None \<and>
   \<not> documents_path_finders searchindex ''mayadcc''"
  by (simp add: dcc_modules_def dcc_module_path_def documents_path_finders_def
      documented_as_def lookup_object_def searchindex_objects searchindex_docnames
      index_objects_def index_docnames_def)

text \<open>
  C3, amended. Of the seven per-DCC modules, \<^verbatim>\<open>objects\<close> documents both
  \<^verbatim>\<open>get_installation_paths\<close> and \<^verbatim>\<open>get_executables_from_installation_path\<close> as
  functions under the module's path exactly for nukedcc, photoshopdcc, substancedesignerdcc,
  substancepainterdcc and zbrushdcc; under the paths of houdinidcc and mayadcc it has no entry
  at all.
\<close>

theorem dcc_path_finders_documented:
  "\<forall>m \<in> set dcc_modules.
     (if m \<in> {''houdinidcc'', ''mayadcc''}
      then map_of (objects searchindex) (dcc_module_path m) = None \<and>
           \<not> documents_path_finders searchindex m
      else documents_path_finders searchindex m)"
proof -
  have "list_all (\<lambda>m. if m \<in> {''houdinidcc'', ''mayadcc''}
      then map_of (objects searchindex) (dcc_module_path m) = None \<and>
           \<not> documents_path_finders searchindex m
      else documents_path_finders searchindex m) dcc_modules"
    using dcc_path_finders dcc_objects_present
    by (simp add: dcc_modules_def searchindex_objects)
  then show ?thesis
    unfolding list_all_iff .
qed

theorem dcc_path_finders_documented_witness:
  "''nukedcc'' \<in> set dcc_modules \<and> ''nukedcc'' \<notin> {''houdinidcc'', ''mayadcc''} \<and>
   documents_path_finders searchindex ''nukedcc'' \<and>
   ''houdinidcc'' \<in> set dcc_modules \<and>
   map_of (objects searchindex) (dcc_module_path ''houdinidcc'') = None \<and>
   \<not> documents_path_finders searchindex ''houdinidcc''"
proof -
  have n: "''nukedcc'' \<in> set dcc_modules" and h: "''houdinidcc'' \<in> set dcc_modules"
    by (simp_all add: dcc_modules_def)
  have "documents_path_finders searchindex ''nukedcc''"
    using dcc_path_finders_documented [rule_format, OF n] by simp
  moreover have "map_of (objects searchindex) (dcc_module_path ''houdinidcc'') = None \<and>
      \<not> documents_path_finders searchindex ''houdinidcc''"
    using dcc_path_finders_documented [rule_format, OF h] by simp
  ultimately show ?thesis
    using n h by simp
qed

text \<open>
  C7. Each of the seven per-DCC module documents is an entry of \<^verbatim>\<open>docnames\<close>:
  houdinidcc, mayadcc, nukedcc, photoshopdcc, substancedesignerdcc, substancepainterdcc and
  zbrushdcc are the documents 9 to 15.
\<close>

theorem dcc_module_documents_present:
  "(\<forall>m \<in> set dcc_modules. dcc_module_path m \<in> set (docnames searchindex)) \<and>
   map (docname_at searchindex) [9, 10, 11, 12, 13, 14, 15] =
     map (\<lambda>m. Some (dcc_module_path m)) dcc_modules"
proof -
  have "list_all (\<lambda>m. dcc_module_path m \<in> set (docnames searchindex)) dcc_modules"
    by (simp add: dcc_modules_def dcc_module_path_def searchindex_docnames index_docnames_def)
  moreover have "map (docname_at searchindex) [9, 10, 11, 12, 13, 14, 15] =
      map (\<lambda>m. Some (dcc_module_path m)) dcc_modules"
    by (simp add: docname_at_searchindex dcc_modules_def dcc_module_path_def index_docnames_def)
  ultimately show ?thesis
    unfolding list_all_iff by blast
qed

theorem dcc_module_documents_present_witness:
  "''zbrushdcc'' \<in> set dcc_modules \<and>
   ''artellapipe.launcher.dccs.zbrushdcc'' \<in> set (docnames searchindex)"
proof -
  have z: "''zbrushdcc'' \<in> set dcc_modules"
    by (simp add: dcc_modules_def)
  from dcc_module_documents_present z
  have "dcc_module_path ''zbrushdcc'' \<in> set (docnames searchindex)"
    by blast
  then show ?thesis
    using z by (simp add: dcc_module_path_def)
qed

subsection \<open>Documented classes, methods and terms\<close>

text \<open>
  C5. \<^verbatim>\<open>objects\<close> records \<^verbatim>\<open>edit\<close> as a \<^verbatim>\<open>py:method\<close> of the class
  \<^verbatim>\<open>ArtellaLauncherConfig\<close> in document 3, the config module's document, and
  \<^verbatim>\<open>write\<close>, \<^verbatim>\<open>write_error\<close> and \<^verbatim>\<open>write_ok\<close> as \<^verbatim>\<open>py:method\<close>s
  of the class \<^verbatim>\<open>ArtellaLauncherConsole\<close> in document 19, the console module's
  document; both classes are recorded as \<^verbatim>\<open>py:class\<close> in the same documents.
\<close>

theorem config_and_console_members:
  "documented_as searchindex ''artellapipe.launcher.core.config.ArtellaLauncherConfig''
     ''edit'' ''py:method'' = Some 3 \<and>
   documented_as searchindex ''artellapipe.launcher.widgets.console.ArtellaLauncherConsole''
     ''write'' ''py:method'' = Some 19 \<and>
   documented_as searchindex ''artellapipe.launcher.widgets.console.ArtellaLauncherConsole''
     ''write_error'' ''py:method'' = Some 19 \<and>
   documented_as searchindex ''artellapipe.launcher.widgets.console.ArtellaLauncherConsole''
     ''write_ok'' ''py:method'' = Some 19 \<and>
   documented_as searchindex ''artellapipe.launcher.core.config''
     ''ArtellaLauncherConfig'' ''py:class'' = Some 3 \<and>
   documented_as searchindex ''artellapipe.launcher.widgets.console''
     ''ArtellaLauncherConsole'' ''py:class'' = Some 19 \<and>
   docname_at searchindex 3 = Some ''artellapipe.launcher.core.config'' \<and>
   docname_at searchindex 19 = Some ''artellapipe.launcher.widgets.console''"
  by (simp add: documented_as_def lookup_object_def objtype_of_def obj_type_def obj_doc_def
      searchindex_objects searchindex_objtypes index_objects_def index_objtypes_def
      dec_string_digit docname_at_searchindex index_docnames_def)

text \<open>
  C6. \<^verbatim>\<open>terms\<close> posts \<^verbatim>\<open>do_reload\<close> to document 1, the document of
  \<^verbatim>\<open>artellapipe.launcher\<close>, and \<^verbatim>\<open>as_path\<close> to document 3, the document of the
  config module; \<^verbatim>\<open>fals\<close> is posted to the documents 1 and 3 and to no other.
\<close>

theorem boolean_default_terms:
  "lookup_term searchindex ''do_reload'' = Some (Single 1) \<and>
   docname_at searchindex 1 = Some ''artellapipe.launcher'' \<and>
   lookup_term searchindex ''as_path'' = Some (Single 3) \<and>
   docname_at searchindex 3 = Some ''artellapipe.launcher.core.config'' \<and>
   map_option posting_ids (lookup_term searchindex ''fals'') = Some [1, 3]"
  by (simp add: lookup_term_def searchindex_terms index_terms_def docname_at_searchindex
      index_docnames_def)

subsection \<open>File names\<close>

text \<open>
  C8. \<^verbatim>\<open>filenames\<close> and \<^verbatim>\<open>docnames\<close> have the same length, and each file name
  is the document name at the same index followed by \<^verbatim>\<open>.rst\<close>: \<^verbatim>\<open>filenames\<close> is
  \<^verbatim>\<open>docnames\<close> mapped through appending \<^verbatim>\<open>.rst\<close>.
\<close>

theorem filenames_are_docnames_rst:
  "length (filenames searchindex) = length (docnames searchindex) \<and>
   (\<forall>i < length (docnames searchindex).
      filenames searchindex ! i = docnames searchindex ! i @ ''.rst'') \<and>
   filenames searchindex = map (\<lambda>d. d @ ''.rst'') (docnames searchindex)"
proof -
  have m: "filenames searchindex = map (\<lambda>d. d @ ''.rst'') (docnames searchindex)"
    by (simp add: searchindex_filenames searchindex_docnames index_filenames_def
        index_docnames_def)
  then show ?thesis
    by simp
qed

theorem filenames_are_docnames_rst_witness:
  "(20::nat) < length (docnames searchindex) \<and>
   docnames searchindex ! 20 = ''index'' \<and>
   filenames searchindex ! 20 = ''index.rst''"
proof -
  have b: "20 < length (docnames searchindex)"
    by (simp add: searchindex_docnames length_index_docnames)
  have d: "docnames searchindex ! 20 = ''index''"
    by (simp add: searchindex_docnames index_docnames_def)
  from filenames_are_docnames_rst b
  have "filenames searchindex ! 20 = docnames searchindex ! 20 @ ''.rst''"
    by blast
  with b d show ?thesis
    by simp
qed

subsection \<open>Postings are sets, document names are unique\<close>

lemma strictly_increasing_Cons:
  "strictly_increasing (x # xs) = ((\<forall>y \<in> set xs. x < y) \<and> strictly_increasing xs)"
proof (induction xs arbitrary: x)
  case Nil
  then show ?case by simp
next
  case (Cons y ys)
  then show ?case by auto
qed

lemma strictly_increasing_sorted_wrt: "strictly_increasing xs = sorted_wrt (<) xs"
  by (induction xs) (simp_all add: strictly_increasing_Cons)

lemma terms_postings_sets: "list_all (\<lambda>(t, p). posting_is_set p) index_terms"
  by (simp add: index_terms_def)

lemma titleterms_postings_sets: "list_all (\<lambda>(t, p). posting_is_set p) index_titleterms"
  by (simp add: index_titleterms_def)

lemma distinct_index_docnames: "distinct index_docnames"
  by (simp add: index_docnames_def)

lemma artellapip_in_titleterms:
  "(''artellapip'', Many [0, 1, 2, 3, 4, 5, 6, 7, 8, 9, 10, 11, 12, 13, 14, 15, 16, 17, 18, 19,
      20, 21]) \<in> set index_titleterms"
  by (simp add: index_titleterms_def)

text \<open>
  C9. Every posting of \<^verbatim>\<open>terms\<close> and \<^verbatim>\<open>titleterms\<close> that is a list is strictly
  increasing, hence sorted and free of duplicates, and the entries of \<^verbatim>\<open>docnames\<close> are
  pairwise distinct.
\<close>

theorem postings_strictly_increasing:
  "(\<forall>(t, p) \<in> set (terms searchindex) \<union> set (titleterms searchindex).
      \<forall>ds. p = Many ds \<longrightarrow> sorted_wrt (<) ds \<and> sorted ds \<and> distinct ds) \<and>
   distinct (docnames searchindex)"
proof -
  have s: "sorted_wrt (<) ds \<and> sorted ds \<and> distinct ds"
    if "(t, Many ds) \<in> set index_terms \<union> set index_titleterms" for t ds
  proof -
    from that terms_postings_sets titleterms_postings_sets
    have "posting_is_set (Many ds)"
      unfolding list_all_iff by blast
    then have "sorted_wrt (<) ds"
      by (simp add: strictly_increasing_sorted_wrt)
    then show ?thesis
      by (simp add: strict_sorted_iff)
  qed
  have "\<forall>(t, p) \<in> set index_terms \<union> set index_titleterms.
      \<forall>ds. p = Many ds \<longrightarrow> sorted_wrt (<) ds \<and> sorted ds \<and> distinct ds"
    using s by blast
  then show ?thesis
    using distinct_index_docnames
    by (simp add: searchindex_terms searchindex_titleterms searchindex_docnames)
qed

theorem postings_strictly_increasing_witness:
  "(''artellapip'', Many [0, 1, 2, 3, 4, 5, 6, 7, 8, 9, 10, 11, 12, 13, 14, 15, 16, 17, 18, 19,
      20, 21]) \<in> set (terms searchindex) \<union> set (titleterms searchindex) \<and>
   sorted_wrt (<) [0::nat, 1, 2, 3, 4, 5, 6, 7, 8, 9, 10, 11, 12, 13, 14, 15, 16, 17, 18, 19,
      20, 21] \<and>
   distinct [0::nat, 1, 2, 3, 4, 5, 6, 7, 8, 9, 10, 11, 12, 13, 14, 15, 16, 17, 18, 19, 20, 21]"
proof -
  let ?ds = "[0::nat, 1, 2, 3, 4, 5, 6, 7, 8, 9, 10, 11, 12, 13, 14, 15, 16, 17, 18, 19, 20, 21]"
  have m: "(''artellapip'', Many ?ds) \<in> set (terms searchindex) \<union> set (titleterms searchindex)"
    using artellapip_in_titleterms by (simp add: searchindex_titleterms)
  from postings_strictly_increasing m
  have "\<forall>ds. Many ?ds = Many ds \<longrightarrow> sorted_wrt (<) ds \<and> sorted ds \<and> distinct ds"
    by fast
  then have "sorted_wrt (<) ?ds \<and> distinct ?ds"
    by blast
  with m show ?thesis
    by blast
qed

subsection \<open>The two type tables\<close>

text \<open>
  C10. \<^verbatim>\<open>objnames\<close> and \<^verbatim>\<open>objtypes\<close> have the same keys, the codes
  \<^verbatim>\<open>"0"\<close> to \<^verbatim>\<open>"4"\<close>, and under every key the type string of
  \<^verbatim>\<open>objtypes\<close> is the first component of the \<^verbatim>\<open>objnames\<close> entry, a colon, and its
  second component.
\<close>

theorem objtypes_match_objnames:
  "fst ` set (objnames searchindex) = fst ` set (objtypes searchindex) \<and>
   fst ` set (objtypes searchindex) = {''0'', ''1'', ''2'', ''3'', ''4''} \<and>
   (\<forall>(k, ns) \<in> set (objnames searchindex).
      length ns = 3 \<and>
      map_of (objtypes searchindex) k = Some (ns ! 0 @ '':'' @ ns ! 1) \<and>
      map_of (objtypes searchindex) k = objname_type ns) \<and>
   map (\<lambda>(k, ns). (k, objname_type ns)) (objnames searchindex) =
     map (\<lambda>(k, ty). (k, Some ty)) (objtypes searchindex)"
proof -
  have "list_all (\<lambda>(k, ns). length ns = 3 \<and>
      map_of index_objtypes k = Some (ns ! 0 @ '':'' @ ns ! 1) \<and>
      map_of index_objtypes k = objname_type ns) index_objnames"
    by (simp add: index_objnames_def index_objtypes_def)
  moreover have "map (\<lambda>(k, ns). (k, objname_type ns)) index_objnames =
      map (\<lambda>(k, ty). (k, Some ty)) index_objtypes"
    by (simp add: index_objnames_def index_objtypes_def)
  ultimately show ?thesis
    unfolding list_all_iff
    by (simp add: searchindex_objnames searchindex_objtypes objtypes_keys objnames_keys)
qed

theorem objtypes_match_objnames_witness:
  "(''4'', [''py'', ''function'', ''Python function'']) \<in> set (objnames searchindex) \<and>
   map_of (objtypes searchindex) ''4'' = Some ''py:function''"
proof -
  have m: "(''4'', [''py'', ''function'', ''Python function'']) \<in> set (objnames searchindex)"
    by (simp add: searchindex_objnames index_objnames_def)
  from objtypes_match_objnames m
  have "map_of (objtypes searchindex) ''4'' =
      Some ([''py'', ''function'', ''Python function''] ! 0 @ '':'' @
            [''py'', ''function'', ''Python function''] ! 1)"
    by fast
  then show ?thesis
    using m by simp
qed

subsection \<open>The payload as a literal\<close>






end
